theory Spec2Isabelle
  imports Main
begin

section \<open>Data contracts (app/schemas/phone\_address.py)\<close>

text \<open>
  The schemas are pydantic models. Building one checks the declared length bounds of its
  fields and raises a validation error when a bound is violated; the error is a value here.
  \<^verbatim>\<open>PhoneAddressBase\<close> declares \<^verbatim>\<open>address\<close> with \<^verbatim>\<open>min_length=1, max_length=1024\<close>.
  \<^verbatim>\<open>PhoneAddressCreate\<close> adds \<^verbatim>\<open>phone\<close> with \<^verbatim>\<open>min_length=3, max_length=64\<close>.
  \<^verbatim>\<open>PhoneAddressRead\<close> adds \<^verbatim>\<open>phone\<close> with no bound.
\<close>

datatype error = ValidationError

record PhoneAddressBase =
  address :: string

record PhoneAddressCreate = PhoneAddressBase +
  phone :: string

record PhoneAddressRead = PhoneAddressBase +
  phone :: string

definition valid_address :: "string \<Rightarrow> bool" where
  "valid_address a \<longleftrightarrow> 1 \<le> length a \<and> length a \<le> 1024"

definition valid_phone :: "string \<Rightarrow> bool" where
  "valid_phone p \<longleftrightarrow> 3 \<le> length p \<and> length p \<le> 64"

text \<open>\<^verbatim>\<open>PhoneAddressCreate(phone=p, address=a)\<close>\<close>

definition PhoneAddressCreate_init :: "string \<Rightarrow> string \<Rightarrow> error + PhoneAddressCreate" where
  "PhoneAddressCreate_init p a =
     (if valid_address a \<and> valid_phone p
      then Inr \<lparr>address = a, PhoneAddressCreate.phone = p\<rparr>
      else Inl ValidationError)"

text \<open>\<^verbatim>\<open>PhoneAddressRead(phone=p, address=a)\<close>\<close>

definition PhoneAddressRead_init :: "string \<Rightarrow> string \<Rightarrow> error + PhoneAddressRead" where
  "PhoneAddressRead_init p a =
     (if valid_address a
      then Inr \<lparr>address = a, PhoneAddressRead.phone = p\<rparr>
      else Inl ValidationError)"

section \<open>The in-memory store (tests/test\_service\_phone\_address.py, tests/conftest.py)\<close>

text \<open>
  The service talks to a store through four commands. The repository's own store is the
  dictionary-backed \<^verbatim>\<open>InMemoryRedis\<close> (and the identical \<^verbatim>\<open>FakeRedis\<close>); each command is
  a function from the dictionary to its result and the dictionary afterwards. None of the
  commands can fail.
\<close>

type_synonym store = "string \<rightharpoonup> string"

text \<open>\<^verbatim>\<open>return self._store.get(name)\<close>\<close>

definition InMemoryRedis_get :: "string \<Rightarrow> store \<Rightarrow> string option \<times> store" where
  "InMemoryRedis_get name s = (s name, s)"

text \<open>
  \<^verbatim>\<open>set(name, value, nx)\<close>: with a true \<^verbatim>\<open>nx\<close> the value is written only when the
  name is not in the dictionary; \<^verbatim>\<open>nx\<close> defaults to \<^verbatim>\<open>None\<close>.
\<close>

definition InMemoryRedis_set :: "string \<Rightarrow> string \<Rightarrow> bool option \<Rightarrow> store \<Rightarrow> bool \<times> store" where
  "InMemoryRedis_set name val nx s =
     (if nx = Some True then
        (if name \<in> dom s then (False, s) else (True, s(name \<mapsto> val)))
      else (True, s(name \<mapsto> val)))"

text \<open>\<^verbatim>\<open>return int(name in self._store)\<close>\<close>

definition InMemoryRedis_exists :: "string \<Rightarrow> store \<Rightarrow> int \<times> store" where
  "InMemoryRedis_exists name s = ((if name \<in> dom s then 1 else 0), s)"

text \<open>\<^verbatim>\<open>return int(self._store.pop(name, None) is not None)\<close>\<close>

definition InMemoryRedis_delete :: "string \<Rightarrow> store \<Rightarrow> int \<times> store" where
  "InMemoryRedis_delete name s =
     ((case s name of None \<Rightarrow> 0 | Some v \<Rightarrow> 1), s(name := None))"

section \<open>The binding service (app/services/phone\_address\_service.py)\<close>

text \<open>\<^verbatim>\<open>return f"phone_address:{phone}"\<close>\<close>

definition make_key :: "string \<Rightarrow> string" where
  "make_key ph = ''phone_address:'' @ ph"

text \<open>
  \<^verbatim>\<open>get\<close>: one store \<^verbatim>\<open>get\<close>; \<^verbatim>\<open>None\<close> when nothing is stored, otherwise the read
  model built from the phone and the stored address.
\<close>

definition get :: "string \<Rightarrow> store \<Rightarrow> (error + PhoneAddressRead option) \<times> store" where
  "get ph s =
     (let key = make_key ph;
          (addr, s1) = InMemoryRedis_get key s
      in case addr of
           None \<Rightarrow> (Inr None, s1)
         | Some a \<Rightarrow>
             (case PhoneAddressRead_init ph a of
                Inl e \<Rightarrow> (Inl e, s1)
              | Inr r \<Rightarrow> (Inr (Some r), s1)))"

text \<open>\<^verbatim>\<open>create\<close>: one conditional set, \<^verbatim>\<open>set(key, data.address, nx=True)\<close>.\<close>

definition create :: "PhoneAddressCreate \<Rightarrow> store \<Rightarrow> bool \<times> store" where
  "create data s =
     (let key = make_key (PhoneAddressCreate.phone data);
          (was_set, s1) = InMemoryRedis_set key (address data) (Some True) s
      in (was_set, s1))"

text \<open>\<^verbatim>\<open>update\<close>: an \<^verbatim>\<open>exists\<close> check, then an unconditional set.\<close>

definition update :: "string \<Rightarrow> string \<Rightarrow> store \<Rightarrow> bool \<times> store" where
  "update ph addr s =
     (let key = make_key ph;
          (exists, s1) = InMemoryRedis_exists key s
      in if exists = 0 then (False, s1)
         else (let (r, s2) = InMemoryRedis_set key addr None s1 in (True, s2)))"

text \<open>\<^verbatim>\<open>delete\<close>: one store delete; \<^verbatim>\<open>return bool(deleted_count > 0)\<close>.\<close>

definition delete :: "string \<Rightarrow> store \<Rightarrow> bool \<times> store" where
  "delete ph s =
     (let key = make_key ph;
          (deleted_count, s1) = InMemoryRedis_delete key s
      in (deleted_count > 0, s1))"

section \<open>Runs of the service\<close>

text \<open>\<^verbatim>\<open>InMemoryRedis.__init__\<close>: \<^verbatim>\<open>self._store = {}\<close>\<close>

definition InMemoryRedis_init :: store where
  "InMemoryRedis_init = Map.empty"

text \<open>
  The states of the store that the service can produce: the empty dictionary, and whatever
  one of the four operations leaves behind when started in such a state.
\<close>

inductive reachable :: "store \<Rightarrow> bool" where
  reachable_init: "reachable InMemoryRedis_init"
| reachable_get: "reachable s \<Longrightarrow> reachable (snd (get p s))"
| reachable_create: "reachable s \<Longrightarrow> reachable (snd (create d s))"
| reachable_update: "reachable s \<Longrightarrow> reachable (snd (update p a s))"
| reachable_delete: "reachable s \<Longrightarrow> reachable (snd (delete p s))"

text \<open>The bindings held by a store: the pairs of a phone and the address under its key.\<close>

definition bindings :: "store \<Rightarrow> (string \<times> string) set" where
  "bindings s = {(p, a). s (make_key p) = Some a}"

text \<open>
  Several \<^verbatim>\<open>create\<close> calls in flight at once. Each call issues exactly one store command,
  the conditional set, and the store executes the commands it receives one at a time; the
  list is the order in which the store executes them, and the results are listed in the
  same order.
\<close>

fun create_all :: "PhoneAddressCreate list \<Rightarrow> store \<Rightarrow> bool list \<times> store" where
  "create_all [] s = ([], s)"
| "create_all (d # ds) s =
     (let (r, s1) = create d s;
          (rs, s2) = create_all ds s1
      in (r # rs, s2))"

section \<open>What each operation computes\<close>

lemma make_key_inject: "make_key p = make_key q \<longleftrightarrow> p = q"
  by (simp add: make_key_def)

lemma get_eq:
  "get p s =
     ((case s (make_key p) of
         None \<Rightarrow> Inr None
       | Some a \<Rightarrow> if valid_address a
                  then Inr (Some \<lparr>address = a, PhoneAddressRead.phone = p\<rparr>)
                  else Inl ValidationError), s)"
  by (simp add: get_def InMemoryRedis_get_def PhoneAddressRead_init_def Let_def split: option.split)

lemma create_eq:
  "create d s =
     (if s (make_key (PhoneAddressCreate.phone d)) = None
      then (True, s(make_key (PhoneAddressCreate.phone d) \<mapsto> address d))
      else (False, s))"
  by (auto simp: create_def InMemoryRedis_set_def Let_def dom_def)

lemma update_eq:
  "update p a s = (if s (make_key p) = None then (False, s) else (True, s(make_key p \<mapsto> a)))"
  by (auto simp: update_def InMemoryRedis_exists_def InMemoryRedis_set_def Let_def dom_def)

lemma delete_eq:
  "delete p s = (s (make_key p) \<noteq> None, s(make_key p := None))"
  by (auto simp: delete_def InMemoryRedis_delete_def Let_def split: option.split)

section \<open>Key construction\<close>

text \<open>
  Claim C4. \<^verbatim>\<open>make_key\<close> is the concatenation of the fixed prefix \<^verbatim>\<open>phone_address:\<close> and
  the phone string as it was given, with nothing normalised, so it is injective: the phones
  \<^verbatim>\<open>"1"\<close> and \<^verbatim>\<open>" 1"\<close> have different keys, and for different phones \<open>p\<close> and \<open>q\<close> the
  binding of \<open>q\<close> is independent of what is created, updated or deleted for \<open>p\<close>.
\<close>

theorem make_key_verbatim_injective:
  "make_key p = ''phone_address:'' @ p
   \<and> (make_key p = make_key q \<longleftrightarrow> p = q)
   \<and> make_key ''1'' \<noteq> make_key '' 1''
   \<and> (p \<noteq> q \<longrightarrow>
        make_key p \<noteq> make_key q
        \<and> get q (snd (get p s)) = get q s
        \<and> fst (get q (snd (create \<lparr>address = a, PhoneAddressCreate.phone = p\<rparr> s))) = fst (get q s)
        \<and> fst (get q (snd (update p a s))) = fst (get q s)
        \<and> fst (get q (snd (delete p s))) = fst (get q s))"
  by (simp add: get_eq create_eq update_eq delete_eq make_key_inject) (simp add: make_key_def)

theorem make_key_verbatim_injective_witness:
  "''1'' \<noteq> '' 1''
   \<and> make_key ''1'' = ''phone_address:1''
   \<and> make_key ''1'' \<noteq> make_key '' 1''
   \<and> fst (get '' 1'' (snd (create \<lparr>address = ''A'', PhoneAddressCreate.phone = ''1''\<rparr> InMemoryRedis_init)))
       = fst (get '' 1'' InMemoryRedis_init)
   \<and> fst (get '' 1'' (snd (update ''1'' ''A'' InMemoryRedis_init))) = fst (get '' 1'' InMemoryRedis_init)
   \<and> fst (get '' 1'' (snd (delete ''1'' InMemoryRedis_init))) = fst (get '' 1'' InMemoryRedis_init)"
  using make_key_verbatim_injective [of "''1''" "'' 1''" InMemoryRedis_init "''A''"]
  by (simp add: make_key_def)

section \<open>Create\<close>

text \<open>
  Claim C1. \<^verbatim>\<open>create\<close> receives a validated payload. For every phone string \<open>p\<close> that
  has no stored binding and every address \<open>a\<close>, \<^verbatim>\<open>create\<close> on the payload that
  \<^verbatim>\<open>PhoneAddressCreate(phone=p, address=a)\<close> builds returns true and stores \<open>a\<close> under the
  key of \<open>p\<close>, and the lookup of \<open>p\<close> issued next returns the binding \<open>(p, a)\<close>.
\<close>

theorem create_then_lookup:
  assumes "PhoneAddressCreate_init p a = Inr d" and "s (make_key p) = None"
  shows "create d s = (True, s(make_key p \<mapsto> a))
         \<and> get p (snd (create d s))
             = (Inr (Some \<lparr>address = a, PhoneAddressRead.phone = p\<rparr>), snd (create d s))"
proof -
  from assms(1) have ok: "valid_address a"
    and d: "d = \<lparr>address = a, PhoneAddressCreate.phone = p\<rparr>"
    by (auto simp: PhoneAddressCreate_init_def split: if_splits)
  from assms(2) have "create d s = (True, s(make_key p \<mapsto> a))"
    by (simp add: d create_eq)
  with ok show ?thesis
    by (simp add: get_eq)
qed

theorem create_then_lookup_witness:
  "PhoneAddressCreate_init ''+7 999 111-11-11'' ''Moscow, Tverskaya 1''
     = Inr \<lparr>address = ''Moscow, Tverskaya 1'', PhoneAddressCreate.phone = ''+7 999 111-11-11''\<rparr>
   \<and> InMemoryRedis_init (make_key ''+7 999 111-11-11'') = None
   \<and> fst (create \<lparr>address = ''Moscow, Tverskaya 1'', PhoneAddressCreate.phone = ''+7 999 111-11-11''\<rparr>
             InMemoryRedis_init) = True
   \<and> fst (get ''+7 999 111-11-11''
             (snd (create \<lparr>address = ''Moscow, Tverskaya 1'', PhoneAddressCreate.phone = ''+7 999 111-11-11''\<rparr>
                     InMemoryRedis_init)))
       = Inr (Some \<lparr>address = ''Moscow, Tverskaya 1'', PhoneAddressRead.phone = ''+7 999 111-11-11''\<rparr>)"
proof -
  have built: "PhoneAddressCreate_init ''+7 999 111-11-11'' ''Moscow, Tverskaya 1''
     = Inr \<lparr>address = ''Moscow, Tverskaya 1'', PhoneAddressCreate.phone = ''+7 999 111-11-11''\<rparr>"
    by (simp add: PhoneAddressCreate_init_def valid_address_def valid_phone_def)
  have absent: "InMemoryRedis_init (make_key ''+7 999 111-11-11'') = None"
    by (simp add: InMemoryRedis_init_def)
  note run = create_then_lookup
    [of "''+7 999 111-11-11''" "''Moscow, Tverskaya 1''"
        "\<lparr>address = ''Moscow, Tverskaya 1'', PhoneAddressCreate.phone = ''+7 999 111-11-11''\<rparr>"
        InMemoryRedis_init, OF built absent]
  from run have created:
    "fst (create \<lparr>address = ''Moscow, Tverskaya 1'', PhoneAddressCreate.phone = ''+7 999 111-11-11''\<rparr>
            InMemoryRedis_init) = True"
    by (simp only: fst_conv)
  from run have found:
    "fst (get ''+7 999 111-11-11''
            (snd (create \<lparr>address = ''Moscow, Tverskaya 1'', PhoneAddressCreate.phone = ''+7 999 111-11-11''\<rparr>
                    InMemoryRedis_init)))
       = Inr (Some \<lparr>address = ''Moscow, Tverskaya 1'', PhoneAddressRead.phone = ''+7 999 111-11-11''\<rparr>)"
    using conjunct2 [OF run] by (simp only: fst_conv)
  from built absent created found show ?thesis by blast
qed




section \<open>Update\<close>

text \<open>
  Claim C5. For every phone string \<open>p\<close> with no stored binding and every address \<open>a\<close>,
  \<^verbatim>\<open>update\<close> returns false and writes nothing: the store is unchanged, and the lookup of
  \<open>p\<close> that follows returns the absent result.
\<close>

theorem update_absent:
  assumes "s (make_key p) = None"
  shows "update p a s = (False, s) \<and> get p (snd (update p a s)) = (Inr None, s)"
  using assms by (simp add: update_eq get_eq)

theorem update_absent_witness:
  "InMemoryRedis_init (make_key ''unknown'') = None
   \<and> update ''unknown'' ''addr'' InMemoryRedis_init = (False, InMemoryRedis_init)
   \<and> get ''unknown'' (snd (update ''unknown'' ''addr'' InMemoryRedis_init)) = (Inr None, InMemoryRedis_init)"
proof -
  have absent: "InMemoryRedis_init (make_key ''unknown'') = None"
    by (simp add: InMemoryRedis_init_def)
  from update_absent [of InMemoryRedis_init "''unknown''" "''addr''"] absent
  show ?thesis by (simp add: get_eq)
qed




section \<open>Delete\<close>

text \<open>
  Claim C7. For every phone string \<open>p\<close> with a stored binding, \<^verbatim>\<open>delete\<close> returns true and
  removes the binding, so that the lookup of \<open>p\<close> afterwards returns the absent result and a
  second \<^verbatim>\<open>delete\<close> returns false (a plain result, the store left as it was); for every
  \<open>p\<close> with no stored binding, \<^verbatim>\<open>delete\<close> returns false.
\<close>

theorem delete_stored_then_absent:
  "(s (make_key p) = Some a \<longrightarrow>
      delete p s = (True, s(make_key p := None))
      \<and> get p (snd (delete p s)) = (Inr None, snd (delete p s))
      \<and> delete p (snd (delete p s)) = (False, snd (delete p s)))
   \<and> (s (make_key p) = None \<longrightarrow> delete p s = (False, s))"
  by (auto simp: delete_eq get_eq)

theorem delete_stored_then_absent_witness:
  "(InMemoryRedis_init(make_key ''777'' \<mapsto> ''addr'')) (make_key ''777'') = Some ''addr''
   \<and> fst (delete ''777'' (InMemoryRedis_init(make_key ''777'' \<mapsto> ''addr''))) = True
   \<and> fst (get ''777'' (snd (delete ''777'' (InMemoryRedis_init(make_key ''777'' \<mapsto> ''addr''))))) = Inr None
   \<and> fst (delete ''777'' (snd (delete ''777'' (InMemoryRedis_init(make_key ''777'' \<mapsto> ''addr''))))) = False
   \<and> InMemoryRedis_init (make_key ''no-such-phone'') = None
   \<and> delete ''no-such-phone'' InMemoryRedis_init = (False, InMemoryRedis_init)"
proof -
  have absent: "InMemoryRedis_init (make_key ''no-such-phone'') = None"
    by (simp add: InMemoryRedis_init_def)
  from delete_stored_then_absent [of "InMemoryRedis_init(make_key ''777'' \<mapsto> ''addr'')" "''777''" "''addr''"]
  have stored:
    "fst (delete ''777'' (InMemoryRedis_init(make_key ''777'' \<mapsto> ''addr''))) = True
     \<and> fst (get ''777'' (snd (delete ''777'' (InMemoryRedis_init(make_key ''777'' \<mapsto> ''addr''))))) = Inr None
     \<and> fst (delete ''777'' (snd (delete ''777'' (InMemoryRedis_init(make_key ''777'' \<mapsto> ''addr''))))) = False"
    by (simp add: delete_eq get_eq)
  from delete_stored_then_absent [of InMemoryRedis_init "''no-such-phone''"] absent
  have missing: "delete ''no-such-phone'' InMemoryRedis_init = (False, InMemoryRedis_init)"
    by simp
  from stored missing absent show ?thesis by simp
qed

section \<open>Lookup\<close>

text \<open>
  Claim C8. For every phone string \<open>p\<close> and every store, the lookup leaves the store as it
  was, so that repeating it gives the same answer; and when nothing is stored for \<open>p\<close> it
  returns the absent result as a value, not an error.
\<close>

theorem lookup_read_only:
  "snd (get p s) = s
   \<and> get p (snd (get p s)) = get p s
   \<and> (s (make_key p) = None \<longrightarrow> fst (get p s) = Inr None)"
  by (simp add: get_eq)

theorem lookup_read_only_witness:
  "InMemoryRedis_init (make_key ''+7 000 000-00-00'') = None
   \<and> snd (get ''+7 000 000-00-00'' InMemoryRedis_init) = InMemoryRedis_init
   \<and> fst (get ''+7 000 000-00-00'' InMemoryRedis_init) = Inr None"
proof -
  have absent: "InMemoryRedis_init (make_key ''+7 000 000-00-00'') = None"
    by (simp add: InMemoryRedis_init_def)
  from lookup_read_only [of "''+7 000 000-00-00''" InMemoryRedis_init] absent
  show ?thesis by simp
qed

section \<open>One address per phone\<close>

text \<open>How each operation changes the bindings, phone by phone.\<close>

lemma bindings_get: "bindings (snd (get p s)) = bindings s"
  by (simp add: get_eq)

lemma bindings_create:
  "bindings (snd (create d s)) =
     (if PhoneAddressCreate.phone d \<in> Domain (bindings s) then bindings s
      else insert (PhoneAddressCreate.phone d, address d) (bindings s))"
  by (auto simp: bindings_def create_eq make_key_inject split: if_splits)

lemma bindings_update:
  "bindings (snd (update p a s)) =
     (if p \<in> Domain (bindings s)
      then insert (p, a) {(q, b). (q, b) \<in> bindings s \<and> q \<noteq> p}
      else bindings s)"
  by (auto simp: bindings_def update_eq make_key_inject split: if_splits)

lemma bindings_delete:
  "bindings (snd (delete p s)) = {(q, b). (q, b) \<in> bindings s \<and> q \<noteq> p}"
  by (auto simp: bindings_def delete_eq make_key_inject split: if_splits)

lemma single_valued_create:
  assumes "single_valued (bindings s)"
  shows "single_valued (bindings (snd (create d s)))"
proof (cases "PhoneAddressCreate.phone d \<in> Domain (bindings s)")
  case True
  with assms show ?thesis by (simp add: bindings_create)
next
  case False
  with assms show ?thesis
    unfolding bindings_create single_valued_def by auto
qed

lemma single_valued_update:
  assumes "single_valued (bindings s)"
  shows "single_valued (bindings (snd (update p a s)))"
proof (cases "p \<in> Domain (bindings s)")
  case True
  with assms show ?thesis
    unfolding bindings_update single_valued_def by auto
next
  case False
  with assms show ?thesis by (simp add: bindings_update)
qed

lemma single_valued_delete:
  assumes "single_valued (bindings s)"
  shows "single_valued (bindings (snd (delete p s)))"
  using assms unfolding bindings_delete single_valued_def by auto

lemma bindings_init: "bindings InMemoryRedis_init = {}"
  by (simp add: bindings_def InMemoryRedis_init_def)

lemma reachable_single_valued:
  assumes "reachable s"
  shows "single_valued (bindings s)"
  using assms
proof (induction rule: reachable.induct)
  case reachable_init
  show ?case by (simp add: bindings_init)
next
  case (reachable_get s p)
  then show ?case by (simp add: bindings_get)
next
  case (reachable_create s d)
  then show ?case by (simp add: single_valued_create)
next
  case (reachable_update s p a)
  then show ?case by (simp add: single_valued_update)
next
  case (reachable_delete s p)
  then show ?case by (simp add: single_valued_delete)
qed

text \<open>
  Claim C3. In every store the service can reach, each phone string is bound to at most
  one address, and \<^verbatim>\<open>get\<close>, \<^verbatim>\<open>create\<close>, \<^verbatim>\<open>update\<close> and \<^verbatim>\<open>delete\<close> each take a store
  with that property to a store with that property.
\<close>

theorem at_most_one_address_per_phone:
  "(reachable s \<longrightarrow> single_valued (bindings s))
   \<and> (single_valued (bindings s) \<longrightarrow>
        single_valued (bindings (snd (get p s)))
        \<and> single_valued (bindings (snd (create d s)))
        \<and> single_valued (bindings (snd (update p a s)))
        \<and> single_valued (bindings (snd (delete p s))))"
  by (simp add: reachable_single_valued bindings_get single_valued_create
      single_valued_update single_valued_delete)

theorem at_most_one_address_per_phone_witness:
  "reachable (snd (create \<lparr>address = ''Addr1'', PhoneAddressCreate.phone = ''123''\<rparr> InMemoryRedis_init))
   \<and> single_valued (bindings (snd (create \<lparr>address = ''Addr1'', PhoneAddressCreate.phone = ''123''\<rparr> InMemoryRedis_init)))
   \<and> single_valued (bindings (snd (create \<lparr>address = ''Addr2'', PhoneAddressCreate.phone = ''123''\<rparr>
        (snd (create \<lparr>address = ''Addr1'', PhoneAddressCreate.phone = ''123''\<rparr> InMemoryRedis_init)))))
   \<and> bindings (snd (create \<lparr>address = ''Addr2'', PhoneAddressCreate.phone = ''123''\<rparr>
        (snd (create \<lparr>address = ''Addr1'', PhoneAddressCreate.phone = ''123''\<rparr> InMemoryRedis_init))))
       = {(''123'', ''Addr1'')}"
proof -
  have r: "reachable (snd (create \<lparr>address = ''Addr1'', PhoneAddressCreate.phone = ''123''\<rparr> InMemoryRedis_init))"
    by (rule reachable_create [OF reachable_init])
  from at_most_one_address_per_phone
    [of "snd (create \<lparr>address = ''Addr1'', PhoneAddressCreate.phone = ''123''\<rparr> InMemoryRedis_init)"
        "''123''" "\<lparr>address = ''Addr2'', PhoneAddressCreate.phone = ''123''\<rparr>" "''Addr2''"] r
  have sv: "single_valued (bindings (snd (create \<lparr>address = ''Addr1'', PhoneAddressCreate.phone = ''123''\<rparr> InMemoryRedis_init)))
    \<and> single_valued (bindings (snd (create \<lparr>address = ''Addr2'', PhoneAddressCreate.phone = ''123''\<rparr>
        (snd (create \<lparr>address = ''Addr1'', PhoneAddressCreate.phone = ''123''\<rparr> InMemoryRedis_init)))))"
    by blast
  have b: "bindings (snd (create \<lparr>address = ''Addr2'', PhoneAddressCreate.phone = ''123''\<rparr>
        (snd (create \<lparr>address = ''Addr1'', PhoneAddressCreate.phone = ''123''\<rparr> InMemoryRedis_init))))
       = {(''123'', ''Addr1'')}"
    by (simp add: bindings_create bindings_init)
  from r sv b show ?thesis by blast
qed

section \<open>Each operation touches its own key only\<close>

text \<open>
  Claim C10. An operation invoked with phone \<open>p\<close> reads and writes the key \<open>make_key p\<close>
  alone. No other key \<open>k\<close> of the store changes; in particular the binding of every other
  phone \<open>q\<close> (present or absent, and its address) is as it was after \<^verbatim>\<open>get\<close>, \<^verbatim>\<open>create\<close>,
  \<^verbatim>\<open>update\<close> and \<^verbatim>\<open>delete\<close> on \<open>p\<close>. And what the operation returns, and what it leaves
  under its own key, depend on nothing but the value under that key.
\<close>

theorem operations_touch_own_key_only:
  "(k \<noteq> make_key p \<longrightarrow>
      snd (get p s) k = s k
      \<and> snd (create \<lparr>address = a, PhoneAddressCreate.phone = p\<rparr> s) k = s k
      \<and> snd (update p a s) k = s k
      \<and> snd (delete p s) k = s k)
   \<and> (make_key q \<noteq> make_key p \<longrightarrow>
      snd (get p s) (make_key q) = s (make_key q)
      \<and> snd (create \<lparr>address = a, PhoneAddressCreate.phone = p\<rparr> s) (make_key q) = s (make_key q)
      \<and> snd (update p a s) (make_key q) = s (make_key q)
      \<and> snd (delete p s) (make_key q) = s (make_key q))
   \<and> (s (make_key p) = t (make_key p) \<longrightarrow>
      fst (get p s) = fst (get p t)
      \<and> fst (create \<lparr>address = a, PhoneAddressCreate.phone = p\<rparr> s)
          = fst (create \<lparr>address = a, PhoneAddressCreate.phone = p\<rparr> t)
      \<and> snd (create \<lparr>address = a, PhoneAddressCreate.phone = p\<rparr> s) (make_key p)
          = snd (create \<lparr>address = a, PhoneAddressCreate.phone = p\<rparr> t) (make_key p)
      \<and> fst (update p a s) = fst (update p a t)
      \<and> snd (update p a s) (make_key p) = snd (update p a t) (make_key p)
      \<and> fst (delete p s) = fst (delete p t)
      \<and> snd (delete p s) (make_key p) = snd (delete p t) (make_key p))"
  by (simp add: get_eq create_eq update_eq delete_eq)

theorem operations_touch_own_key_only_witness:
  "make_key ''555'' \<noteq> make_key ''123''
   \<and> snd (create \<lparr>address = ''B'', PhoneAddressCreate.phone = ''123''\<rparr>
            (InMemoryRedis_init(make_key ''555'' \<mapsto> ''A''))) (make_key ''555'') = Some ''A''
   \<and> snd (update ''123'' ''B'' (InMemoryRedis_init(make_key ''555'' \<mapsto> ''A'', make_key ''123'' \<mapsto> ''C'')))
        (make_key ''555'') = Some ''A''
   \<and> snd (delete ''123'' (InMemoryRedis_init(make_key ''555'' \<mapsto> ''A'', make_key ''123'' \<mapsto> ''C'')))
        (make_key ''555'') = Some ''A''
   \<and> snd (get ''123'' (InMemoryRedis_init(make_key ''555'' \<mapsto> ''A''))) (make_key ''555'') = Some ''A''
   \<and> fst (delete ''123'' (InMemoryRedis_init(make_key ''555'' \<mapsto> ''A''))) = fst (delete ''123'' InMemoryRedis_init)"
proof -
  have ne: "make_key ''555'' \<noteq> make_key ''123''"
    by (simp add: make_key_inject)
  have same: "(InMemoryRedis_init(make_key ''555'' \<mapsto> ''A'')) (make_key ''123'')
      = InMemoryRedis_init (make_key ''123'')"
    using ne by simp
  note c = operations_touch_own_key_only
    [of "make_key ''555''" "''123''" "InMemoryRedis_init(make_key ''555'' \<mapsto> ''A'')" "''B''" "''555''" InMemoryRedis_init]
  note u = operations_touch_own_key_only
    [of "make_key ''555''" "''123''" "InMemoryRedis_init(make_key ''555'' \<mapsto> ''A'', make_key ''123'' \<mapsto> ''C'')"
        "''B''" "''555''" InMemoryRedis_init]
  from c ne same have
    "snd (create \<lparr>address = ''B'', PhoneAddressCreate.phone = ''123''\<rparr>
            (InMemoryRedis_init(make_key ''555'' \<mapsto> ''A''))) (make_key ''555'') = Some ''A''
     \<and> snd (get ''123'' (InMemoryRedis_init(make_key ''555'' \<mapsto> ''A''))) (make_key ''555'') = Some ''A''
     \<and> fst (delete ''123'' (InMemoryRedis_init(make_key ''555'' \<mapsto> ''A''))) = fst (delete ''123'' InMemoryRedis_init)"
    by simp
  moreover from u ne have
    "snd (update ''123'' ''B'' (InMemoryRedis_init(make_key ''555'' \<mapsto> ''A'', make_key ''123'' \<mapsto> ''C'')))
        (make_key ''555'') = Some ''A''
     \<and> snd (delete ''123'' (InMemoryRedis_init(make_key ''555'' \<mapsto> ''A'', make_key ''123'' \<mapsto> ''C'')))
        (make_key ''555'') = Some ''A''"
    by simp
  ultimately show ?thesis using ne by blast
qed

section \<open>Several creates for one phone\<close>

lemma count_list_replicate_False:
  "count_list (replicate n False) True = 0 \<and> count_list (replicate n False) False = n"
  by (induction n) simp_all

lemma create_all_stored:
  assumes "s (make_key p) \<noteq> None" and "\<forall>d \<in> set ds. PhoneAddressCreate.phone d = p"
  shows "create_all ds s = (replicate (length ds) False, s)"
  using assms
proof (induction ds)
  case Nil
  show ?case by simp
next
  case (Cons d ds)
  from Cons.prems have "create d s = (False, s)"
    by (simp add: create_eq)
  moreover from Cons have "create_all ds s = (replicate (length ds) False, s)"
    by simp
  ultimately show ?case by simp
qed

lemma create_all_absent:
  assumes "s (make_key p) = None" and "\<forall>d \<in> set (d0 # ds). PhoneAddressCreate.phone d = p"
  shows "create_all (d0 # ds) s = (True # replicate (length ds) False, s(make_key p \<mapsto> address d0))"
proof -
  from assms have first: "create d0 s = (True, s(make_key p \<mapsto> address d0))"
    by (simp add: create_eq)
  have "(s(make_key p \<mapsto> address d0)) (make_key p) \<noteq> None"
    by simp
  moreover from assms(2) have "\<forall>d \<in> set ds. PhoneAddressCreate.phone d = p"
    by simp
  ultimately have "create_all ds (s(make_key p \<mapsto> address d0))
      = (replicate (length ds) False, s(make_key p \<mapsto> address d0))"
    by (rule create_all_stored)
  with first show ?thesis by simp
qed

text \<open>
  Claim C9, as stated, fails when the phone is already stored: with \<^verbatim>\<open>"123"\<close> bound, a
  single create for \<^verbatim>\<open>"123"\<close> (\<open>N = 1\<close>) returns false, so no call returns true.
\<close>

theorem concurrent_create_counterexample:
  "(InMemoryRedis_init(make_key ''123'' \<mapsto> ''A'')) (make_key ''123'') = Some ''A''
   \<and> fst (create \<lparr>address = ''B'', PhoneAddressCreate.phone = ''123''\<rparr>
             (InMemoryRedis_init(make_key ''123'' \<mapsto> ''A''))) = False
   \<and> fst (create_all [\<lparr>address = ''B'', PhoneAddressCreate.phone = ''123''\<rparr>]
             (InMemoryRedis_init(make_key ''123'' \<mapsto> ''A''))) = [False]
   \<and> count_list (fst (create_all [\<lparr>address = ''B'', PhoneAddressCreate.phone = ''123''\<rparr>]
             (InMemoryRedis_init(make_key ''123'' \<mapsto> ''A'')))) True = 0"
  by (simp add: create_eq)

text \<open>
  Claim C9, amended. For every phone string \<open>p\<close> that has no stored binding and every
  \<open>N \<ge> 1\<close>, when \<open>N\<close> create calls for \<open>p\<close> are in flight and the store executes their
  conditional sets one at a time, then in whatever order it executes them exactly one call
  returns true (the one executed first, whose address is stored) and the other \<open>N - 1\<close>
  return false.
\<close>

theorem concurrent_create_exactly_one:
  assumes "ds \<noteq> []"
    and "\<forall>d \<in> set ds. PhoneAddressCreate.phone d = p"
    and "s (make_key p) = None"
  shows "count_list (fst (create_all ds s)) True = 1
         \<and> count_list (fst (create_all ds s)) False = length ds - 1
         \<and> fst (create_all ds s) = True # replicate (length ds - 1) False
         \<and> snd (create_all ds s) = s(make_key p \<mapsto> address (hd ds))"
proof -
  from assms(1) obtain d0 ds' where ds: "ds = d0 # ds'"
    by (cases ds) auto
  from assms(2,3) have "create_all (d0 # ds') s
      = (True # replicate (length ds') False, s(make_key p \<mapsto> address d0))"
    unfolding ds by (intro create_all_absent)
  then show ?thesis
    by (simp add: ds count_list_replicate_False)
qed

theorem concurrent_create_exactly_one_witness:
  "InMemoryRedis_init (make_key ''123'') = None
   \<and> count_list (fst (create_all
        [\<lparr>address = ''A'', PhoneAddressCreate.phone = ''123''\<rparr>,
         \<lparr>address = ''B'', PhoneAddressCreate.phone = ''123''\<rparr>,
         \<lparr>address = ''C'', PhoneAddressCreate.phone = ''123''\<rparr>] InMemoryRedis_init)) True = 1
   \<and> count_list (fst (create_all
        [\<lparr>address = ''A'', PhoneAddressCreate.phone = ''123''\<rparr>,
         \<lparr>address = ''B'', PhoneAddressCreate.phone = ''123''\<rparr>,
         \<lparr>address = ''C'', PhoneAddressCreate.phone = ''123''\<rparr>] InMemoryRedis_init)) False = 2
   \<and> snd (create_all
        [\<lparr>address = ''A'', PhoneAddressCreate.phone = ''123''\<rparr>,
         \<lparr>address = ''B'', PhoneAddressCreate.phone = ''123''\<rparr>,
         \<lparr>address = ''C'', PhoneAddressCreate.phone = ''123''\<rparr>] InMemoryRedis_init)
       = InMemoryRedis_init(make_key ''123'' \<mapsto> ''A'')"
proof -
  have absent: "InMemoryRedis_init (make_key ''123'') = None"
    by (simp add: InMemoryRedis_init_def)
  from concurrent_create_exactly_one
    [of "[\<lparr>address = ''A'', PhoneAddressCreate.phone = ''123''\<rparr>,
          \<lparr>address = ''B'', PhoneAddressCreate.phone = ''123''\<rparr>,
          \<lparr>address = ''C'', PhoneAddressCreate.phone = ''123''\<rparr>]" "''123''" InMemoryRedis_init]
    absent
  show ?thesis by simp
qed

end
